theory Spec2Isabelle
  imports Main "HOL-Library.Sublist"
begin

section \<open>Python strings and values\<close>

text \<open>
  Strings are lists of 8-bit characters. The case mapping and the whitespace class are
  Python's on the ASCII range: \<open>str.isspace\<close> holds for the codes 9 to 13 and 28 to 32,
  \<open>str.lower\<close> maps \<open>A\<close> to \<open>Z\<close> onto \<open>a\<close> to \<open>z\<close>. Logging calls of the source have no
  effect on any result and are left out.
\<close>

definition is_space :: "char \<Rightarrow> bool" where
  "is_space c = (let n = (of_char c :: nat) in (9 \<le> n \<and> n \<le> 13) \<or> (28 \<le> n \<and> n \<le> 32))"

text \<open>\<open>s.strip()\<close> is \<open>strip_chars is_space s\<close>; \<open>s.strip("_")\<close> strips underscores.\<close>

definition strip_chars :: "(char \<Rightarrow> bool) \<Rightarrow> string \<Rightarrow> string" where
  "strip_chars p s = rev (dropWhile p (rev (dropWhile p s)))"

text \<open>\<open>s.rstrip("/")\<close>.\<close>

definition rstrip_slash :: "string \<Rightarrow> string" where
  "rstrip_slash s = rev (dropWhile (\<lambda>c. c = CHR ''/'') (rev s))"


text \<open>\<open>s.split()\<close>: the maximal runs of non-whitespace characters, in order.\<close>

fun split_ws :: "string \<Rightarrow> string \<Rightarrow> string list" where
  "split_ws cur [] = (if cur = [] then [] else [cur])"
| "split_ws cur (c # cs) =
     (if is_space c then (if cur = [] then split_ws [] cs else cur # split_ws [] cs)
      else split_ws (cur @ [c]) cs)"

text \<open>\<open>sep.join(xs)\<close>.\<close>

fun join :: "string \<Rightarrow> string list \<Rightarrow> string" where
  "join sep [] = []"
| "join sep [x] = x"
| "join sep (x # y # ys) = x @ sep @ join sep (y # ys)"

text \<open>\<open>str(n)\<close> for a non-negative integer: its decimal digits.\<close>

fun string_of_nat :: "nat \<Rightarrow> string" where
  "string_of_nat n =
     (if n < 10 then [char_of (48 + n)]
      else string_of_nat (n div 10) @ [char_of (48 + n mod 10)])"

declare string_of_nat.simps [simp del]

text \<open>
  A decoded JSON document, as \<open>response.json()\<close> returns it. \<open>JNull\<close> is Python's \<open>None\<close>.
  The type \<open>'f\<close> stands for Python's floats. A \<open>JDict\<close> lists the items of the dict in
  insertion order; a key is looked up with \<open>map_of\<close>.
\<close>

datatype 'f json =
    JNull
  | JBool bool
  | JInt int
  | JFloat 'f
  | JStr string
  | JList "'f json list"
  | JDict "(string \<times> 'f json) list"

text \<open>
  The exceptions that the modelled code raises or meets. \<open>HTTPStatusError\<close> carries the
  status code and body text of its response, \<open>HTTPError\<close> (any other \<open>httpx.HTTPError\<close>) and
  \<open>OtherError\<close> (an exception of any other class) carry \<open>str(exc)\<close>, \<open>HTTPException\<close> is
  FastAPI's, with status code and detail. \<open>ValueError\<close> includes the JSON decoding error.
\<close>

datatype py_exc =
    TypeError
  | AttributeError
  | IndexError
  | OverflowError
  | ValueError
  | HTTPStatusError nat string
  | TimeoutException
  | HTTPError string
  | OtherError string
  | HTTPException nat string

text \<open>
  What the code takes from Python's standard library without the repository defining it:
  the truth value of a float, \<open>format(x, ".3f")\<close> for a float and for an integer (which
  raises \<open>OverflowError\<close> for an integer too large for a float), \<open>str(v)\<close> of a value that is
  not a string, and \<open>textwrap.shorten(s, width=320, placeholder="...")\<close>.
\<close>

record 'f pylib =
  float_truthy :: "'f \<Rightarrow> bool"
  format_float3 :: "'f \<Rightarrow> string"
  format_int3 :: "int \<Rightarrow> py_exc + string"
  str_of_value :: "'f json \<Rightarrow> string"
  shorten320 :: "string \<Rightarrow> string"

definition truthy :: "'f pylib \<Rightarrow> 'f json \<Rightarrow> bool" where
  "truthy lib v =
     (case v of
        JNull \<Rightarrow> False
      | JBool b \<Rightarrow> b
      | JInt i \<Rightarrow> i \<noteq> 0
      | JFloat x \<Rightarrow> float_truthy lib x
      | JStr s \<Rightarrow> s \<noteq> []
      | JList xs \<Rightarrow> xs \<noteq> []
      | JDict kv \<Rightarrow> kv \<noteq> [])"

text \<open>\<open>a or b\<close> on values, and \<open>d.get(k)\<close> on a dict.\<close>

definition py_or :: "'f pylib \<Rightarrow> 'f json \<Rightarrow> 'f json \<Rightarrow> 'f json" where
  "py_or lib a b = (if truthy lib a then a else b)"

definition dict_get :: "(string \<times> 'f json) list \<Rightarrow> string \<Rightarrow> 'f json" where
  "dict_get kv k = (case map_of kv k of Some v \<Rightarrow> v | None \<Rightarrow> JNull)"

text \<open>
  An optional string is true when it is neither \<open>None\<close> nor empty: \<open>if_truthy a\<close> is the
  string then. \<open>str_or a b\<close> is \<open>a or b\<close> on optional strings.
\<close>

definition if_truthy :: "string option \<Rightarrow> string option" where
  "if_truthy a = (case a of Some s \<Rightarrow> (if s \<noteq> [] then Some s else None) | None \<Rightarrow> None)"

definition str_or :: "string option \<Rightarrow> string option \<Rightarrow> string option" where
  "str_or a b = (case if_truthy a of Some s \<Rightarrow> Some s | None \<Rightarrow> b)"

text \<open>
  Iterating a value, as \<open>enumerate(data, start=1)\<close> does: a list gives its elements, a dict
  its keys, a string its characters, and any other value raises \<open>TypeError\<close>.
\<close>

definition py_iter :: "'f json \<Rightarrow> py_exc + 'f json list" where
  "py_iter v =
     (case v of
        JList xs \<Rightarrow> Inr xs
      | JDict kv \<Rightarrow> Inr (map (\<lambda>p. JStr (fst p)) kv)
      | JStr s \<Rightarrow> Inr (map (\<lambda>c. JStr [c]) s)
      | _ \<Rightarrow> Inl TypeError)"

section \<open>Configuration and environment\<close>

text \<open>
  The fields of \<open>app.core.config.settings\<close> that the three modules read. The module is
  not among the sources; its fields are parameters here. An optional string field may be
  \<open>None\<close> or empty.
\<close>

record settings =
  RAG_BASE_URL :: string
  RAG_QUERY_ENDPOINT :: string
  RAG_QUERY_MULTIPLE_ENDPOINT :: string
  RAG_DEFAULT_FILE_IDS :: "string list"
  RAG_TOP_K :: int
  RAG_ENTITY_ID :: "string option"
  RAG_TIMEOUT_SECONDS :: int
  RAG_JWT_SECRET :: "string option"
  RAG_JWT_ALGORITHM :: string
  RAG_JWT_TTL_SECONDS :: int
  RAG_SERVICE_SUBJECT :: "string option"

text \<open>
  A time claim of a token: whole seconds since the epoch (\<open>int(now.timestamp())\<close>), or a
  \<open>datetime\<close>, given in microseconds since the epoch.
\<close>

datatype timeval = EpochSeconds int | Datetime int

record jwt_claims =
  claim_sub :: string
  claim_iat :: timeval
  claim_exp :: timeval

datatype payload_value = PStr string | PInt int | PStrList "string list"

text \<open>
  An outbound request. The search tool sends \<open>client.post(url, json=payload, headers=headers)\<close>,
  a \<open>JsonBody\<close>; the proxy sends \<open>client.request(method, url, data=data, files=files,
  headers=headers)\<close>, a \<open>FormBody\<close>, where a file is (filename, content, content type).
  The timeout is the one of the client.
\<close>

datatype request_body =
    JsonBody "(string \<times> payload_value) list"
  | FormBody "(string \<times> string) list option"
             "(string \<times> string option \<times> string \<times> string) list option"

record http_request =
  req_method :: string
  req_url :: string
  req_body :: request_body
  req_headers :: "(string \<times> string) list"
  req_timeout :: int

record 'f response =
  status_code :: nat
  text_body :: string
  reason_phrase :: string
  content_type_header :: "string option"
  json_body :: "'f json option"

text \<open>
  \<open>Raises e\<close>: the call raised \<open>e\<close>. For the proxy, \<open>Response r\<close> is the response that
  \<open>client.request\<close> returned; \<open>json_body r = None\<close> says that \<open>r.json()\<close> raises.
  For the tool, the three statements of the \<open>try\<close> block (\<open>client.post\<close>,
  \<open>raise_for_status\<close>, \<open>response.json()\<close>) either raise or give the decoded body.
\<close>

datatype 'f transport = Raises py_exc | Response "'f response"

datatype 'f post_outcome = PostRaises py_exc | PostReturns "'f json"

text \<open>
  The world outside the code: the clock (\<open>datetime.now(UTC)\<close>, microseconds since the
  epoch), \<open>jwt.encode(payload, secret, algorithm)\<close> (\<open>None\<close> when it raises),
  \<open>uuid.uuid4().hex[:8]\<close>, and the RAG service behind the HTTP client.
\<close>

record 'f env =
  now :: int
  jwt_encode :: "jwt_claims \<Rightarrow> string \<Rightarrow> string \<Rightarrow> string option"
  uuid4_hex8 :: string
  client_post :: "http_request \<Rightarrow> 'f post_outcome"
  client_request :: "http_request \<Rightarrow> 'f transport"

text \<open>
  \<open>timedelta(seconds=s)\<close> raises \<open>OverflowError\<close> beyond 999999999 days, and adding it to a
  \<open>datetime\<close> raises \<open>OverflowError\<close> outside the years 1 to 9999. Both values are in
  microseconds here.
\<close>

definition timedelta_seconds :: "int \<Rightarrow> py_exc + int" where
  "timedelta_seconds s =
     (if 999999999 < abs (s div 86400) then Inl OverflowError else Inr (s * 1000000))"

definition datetime_add :: "int \<Rightarrow> int \<Rightarrow> py_exc + int" where
  "datetime_add t d =
     (if t + d < - 62135596800000000 \<or> 253402300799999999 < t + d then Inl OverflowError
      else Inr (t + d))"


section \<open>Identifier normalizer (\<open>app/api/v1/documents.py\<close>)\<close>










section \<open>Service token issuer\<close>

text \<open>\<open>settings.RAG_SERVICE_SUBJECT or "agent_service"\<close>.\<close>

definition subject_or_default :: "string option \<Rightarrow> string" where
  "subject_or_default s = (case if_truthy s of Some x \<Rightarrow> x | None \<Rightarrow> ''agent_service'')"



section \<open>Proxy endpoints (\<open>app/api/v1/documents.py\<close>)\<close>








section \<open>Result formatter (\<open>app/core/langgraph/tools/rag_search.py\<close>)\<close>

definition no_context_message :: string where
  "no_context_message = ''No relevant context found in the knowledge base.''"

text \<open>
  The first part of the loop body of \<open>_format_results\<close>: the pair \<open>(document, score)\<close>
  taken from an entry, \<open>JNull\<close> being \<open>None\<close>.
\<close>

definition item_document_score :: "'f pylib \<Rightarrow> 'f json \<Rightarrow> 'f json \<times> 'f json" where
  "item_document_score lib item =
     (case item of
        JList (d # rest) \<Rightarrow> (d, (case rest of [] \<Rightarrow> JNull | s # _ \<Rightarrow> s))
      | JDict kv \<Rightarrow> (py_or lib (dict_get kv ''document'') item, dict_get kv ''score'')
      | _ \<Rightarrow> (JNull, JNull))"

text \<open>
  \<open>f"{score:.3f}" if isinstance(score, (float, int)) else "n/a"\<close>; a Python \<open>bool\<close> is
  an \<open>int\<close>.
\<close>

definition score_text :: "'f pylib \<Rightarrow> 'f json \<Rightarrow> py_exc + string" where
  "score_text lib score =
     (case score of
        JFloat x \<Rightarrow> Inr (format_float3 lib x)
      | JInt i \<Rightarrow> format_int3 lib i
      | JBool b \<Rightarrow> format_int3 lib (if b then 1 else 0)
      | _ \<Rightarrow> Inr ''n/a'')"

text \<open>\<open>f"{source}"\<close>: a string as it is, any other value through \<open>str\<close>.\<close>

definition format_value :: "'f pylib \<Rightarrow> 'f json \<Rightarrow> string" where
  "format_value lib v = (case v of JStr s \<Rightarrow> s | _ \<Rightarrow> str_of_value lib v)"

text \<open>
  The loop body for the entry \<open>item\<close> at index \<open>idx\<close>: \<open>Inr None\<close> when the entry is
  skipped (\<open>continue\<close>), \<open>Inr (Some line)\<close> when a line is appended, \<open>Inl e\<close> when the body
  raises. \<open>page_content.split()\<close> raises \<open>AttributeError\<close> unless \<open>page_content\<close> is a
  string, \<open>metadata.get\<close> unless \<open>metadata\<close> is a dict.
\<close>

definition format_chunk :: "'f pylib \<Rightarrow> nat \<Rightarrow> 'f json \<Rightarrow> py_exc + string option" where
  "format_chunk lib idx item =
     (case item_document_score lib item of
        (JDict document, score) \<Rightarrow>
          (let page_content =
                 py_or lib
                   (py_or lib (dict_get document ''page_content'') (dict_get document ''content''))
                   (JStr []);
               metadata = py_or lib (dict_get document ''metadata'') (JDict [])
           in case page_content of
                JStr content \<Rightarrow>
                  (let snippet = shorten320 lib (join '' '' (split_ws [] content)) in
                   case metadata of
                     JDict md \<Rightarrow>
                       (let source =
                              py_or lib
                                (py_or lib
                                   (py_or lib (dict_get md ''source'') (dict_get md ''filename''))
                                   (dict_get md ''file_id''))
                                (JStr ''unknown source'')
                        in case score_text lib score of
                             Inl e \<Rightarrow> Inl e
                           | Inr st \<Rightarrow>
                               Inr (Some (string_of_nat idx @ ''. score='' @ st @ '' source='' @
                                          format_value lib source @ '': '' @ snippet)))
                   | _ \<Rightarrow> Inl AttributeError)
              | _ \<Rightarrow> Inl AttributeError)
      | _ \<Rightarrow> Inr None)"

text \<open>
  The loop \<open>for idx, item in enumerate(data, start=1)\<close>, from index \<open>idx\<close> on: the lines
  appended to \<open>formatted_chunks\<close>, in order, or the first exception.
\<close>

fun format_chunks :: "'f pylib \<Rightarrow> nat \<Rightarrow> 'f json list \<Rightarrow> py_exc + string list" where
  "format_chunks lib idx [] = Inr []"
| "format_chunks lib idx (item # items) =
     (case format_chunk lib idx item of
        Inl e \<Rightarrow> Inl e
      | Inr line \<Rightarrow>
          (case format_chunks lib (Suc idx) items of
             Inl e \<Rightarrow> Inl e
           | Inr lines \<Rightarrow> Inr ((case line of None \<Rightarrow> [] | Some l \<Rightarrow> [l]) @ lines)))"

text \<open>\<open>_format_results(data)\<close>.\<close>

definition format_results :: "'f pylib \<Rightarrow> 'f json \<Rightarrow> py_exc + string" where
  "format_results lib data =
     (if \<not> truthy lib data then Inr no_context_message
      else
        case py_iter data of
          Inl e \<Rightarrow> Inl e
        | Inr items \<Rightarrow>
            (case format_chunks lib 1 items of
               Inl e \<Rightarrow> Inl e
             | Inr formatted_chunks \<Rightarrow>
                 if formatted_chunks = [] then Inr no_context_message
                 else Inr (join [CHR 0x0A] formatted_chunks)))"

section \<open>Search tool (\<open>app/core/langgraph/tools/rag_search.py\<close>)\<close>

text \<open>The private fields that \<open>RAGSearchTool.__init__\<close> sets.\<close>

record rag_search_tool =
  self_base_url :: string
  self_query_endpoint :: string
  self_query_multiple_endpoint :: string
  self_default_file_ids :: "string list"
  self_default_top_k :: int
  self_entity_id :: "string option"
  self_timeout :: int
  self_jwt_secret :: "string option"
  self_jwt_algorithm :: string
  self_jwt_ttl_seconds :: int
  self_service_subject :: string

definition ensure_leading_slash :: "string \<Rightarrow> string" where
  "ensure_leading_slash v =
     (if v = [] then [] else if prefix ''/'' v then v else ''/'' @ v)"

definition init_tool :: "settings \<Rightarrow> rag_search_tool" where
  "init_tool cfg =
     \<lparr>self_base_url = rstrip_slash (RAG_BASE_URL cfg),
      self_query_endpoint = ensure_leading_slash (RAG_QUERY_ENDPOINT cfg),
      self_query_multiple_endpoint = ensure_leading_slash (RAG_QUERY_MULTIPLE_ENDPOINT cfg),
      self_default_file_ids = filter (\<lambda>fid. fid \<noteq> []) (RAG_DEFAULT_FILE_IDS cfg),
      self_default_top_k = max 1 (RAG_TOP_K cfg),
      self_entity_id = RAG_ENTITY_ID cfg,
      self_timeout = RAG_TIMEOUT_SECONDS cfg,
      self_jwt_secret = RAG_JWT_SECRET cfg,
      self_jwt_algorithm = RAG_JWT_ALGORITHM cfg,
      self_jwt_ttl_seconds = max 10 (RAG_JWT_TTL_SECONDS cfg),
      self_service_subject = subject_or_default (RAG_SERVICE_SUBJECT cfg)\<rparr>"

text \<open>\<open>RAGSearchTool._generate_jwt()\<close>; the payload, with its date arithmetic, is built before the \<open>try\<close>.\<close>

definition generate_jwt :: "rag_search_tool \<Rightarrow> 'f env \<Rightarrow> py_exc + string option" where
  "generate_jwt tool env =
     (case if_truthy (self_jwt_secret tool) of
        None \<Rightarrow> Inr None
      | Some secret \<Rightarrow>
          (case timedelta_seconds (self_jwt_ttl_seconds tool) of
             Inl e \<Rightarrow> Inl e
           | Inr delta \<Rightarrow>
               (case datetime_add (now env) delta of
                  Inl e \<Rightarrow> Inl e
                | Inr expires \<Rightarrow>
                    Inr (jwt_encode env
                           \<lparr>claim_sub = self_service_subject tool,
                            claim_iat = Datetime (now env),
                            claim_exp = Datetime expires\<rparr>
                           secret (self_jwt_algorithm tool)))))"

definition prepare_headers :: "rag_search_tool \<Rightarrow> 'f env \<Rightarrow> py_exc + (string \<times> string) list" where
  "prepare_headers tool env =
     (case generate_jwt tool env of
        Inl e \<Rightarrow> Inl e
      | Inr token \<Rightarrow>
          Inr ((''Content-Type'', ''application/json'') #
               (case if_truthy token of
                  Some t \<Rightarrow> [(''Authorization'', ''Bearer '' @ t)]
                | None \<Rightarrow> [])))"

text \<open>\<open>_compose_payload\<close>; \<open>file_ids[0]\<close> raises \<open>IndexError\<close> on an empty list.\<close>

definition compose_payload ::
  "rag_search_tool \<Rightarrow> string \<Rightarrow> string list \<Rightarrow> int \<Rightarrow> string option \<Rightarrow>
   py_exc + string \<times> (string \<times> payload_value) list" where
  "compose_payload tool query file_ids top_k entity =
     (let is_multiple = (length file_ids > 1);
          endpoint = (if is_multiple then self_query_multiple_endpoint tool
                      else self_query_endpoint tool);
          payload = [(''query'', PStr query), (''k'', PInt top_k)];
          entity_part = (case if_truthy (str_or entity (self_entity_id tool)) of
                           Some e \<Rightarrow> [(''entity_id'', PStr e)]
                         | None \<Rightarrow> [])
      in if is_multiple then
           Inr (endpoint, payload @ [(''file_ids'', PStrList file_ids)] @ entity_part)
         else
           case file_ids of
             [] \<Rightarrow> Inl IndexError
           | fid # _ \<Rightarrow> Inr (endpoint, payload @ [(''file_id'', PStr fid)] @ entity_part))"

text \<open>The local variables \<open>resolved_file_ids\<close> and \<open>resolved_top_k\<close> of \<open>_arun\<close>.\<close>

definition resolve_file_ids :: "rag_search_tool \<Rightarrow> string list option \<Rightarrow> string list" where
  "resolve_file_ids tool file_ids =
     filter (\<lambda>fid. fid \<noteq> [])
       (case file_ids of
          Some ids \<Rightarrow> (if ids \<noteq> [] then ids else self_default_file_ids tool)
        | None \<Rightarrow> self_default_file_ids tool)"

definition resolve_top_k :: "rag_search_tool \<Rightarrow> int option \<Rightarrow> int" where
  "resolve_top_k tool top_k =
     (let resolved_top_k =
            (case top_k of
               Some k \<Rightarrow> (if k \<noteq> 0 then k else self_default_top_k tool)
             | None \<Rightarrow> self_default_top_k tool)
      in if resolved_top_k < 1 then 1 else resolved_top_k)"

definition query_required_message :: string where
  "query_required_message = ''A search query is required to use the knowledge base.''"

definition no_file_ids_message :: string where
  "no_file_ids_message =
     ''No file identifiers were provided or configured for the RAG knowledge base. '' @
     ''Add file IDs via `file_ids` argument or configure `RAG_DEFAULT_FILE_IDS`.''"

definition status_failure_message :: "nat \<Rightarrow> string" where
  "status_failure_message status =
     ''RAG search failed with status '' @ string_of_nat status @ ''. '' @
     ''Verify the file identifiers and query parameters.''"

definition timeout_message :: string where
  "timeout_message = ''RAG search timed out. Please try again with a simpler query.''"

definition network_error_message :: "string \<Rightarrow> string" where
  "network_error_message err = ''RAG search failed due to a network error: '' @ err"

definition unexpected_format_message :: string where
  "unexpected_format_message = ''RAG search returned an unexpected response format.''"

text \<open>
  \<open>_arun(query, file_ids, top_k, entity_id)\<close>: the string returned or the exception raised
  to the caller, and the requests sent, in order. The \<open>except\<close> clauses are tried in the
  order of the source; an exception of no listed class leaves the function, and so does
  one raised after the \<open>try\<close> statement, in \<open>_format_results\<close>.
\<close>

definition arun ::
  "rag_search_tool \<Rightarrow> 'f pylib \<Rightarrow> 'f env \<Rightarrow> string \<Rightarrow> string list option \<Rightarrow> int option \<Rightarrow>
   string option \<Rightarrow> (py_exc + string) \<times> http_request list" where
  "arun tool lib env query file_ids top_k entity =
     (if query = [] \<or> strip_chars is_space query = [] then (Inr query_required_message, [])
      else
        let resolved_file_ids = resolve_file_ids tool file_ids in
        if resolved_file_ids = [] then (Inr no_file_ids_message, [])
        else
          let resolved_top_k = resolve_top_k tool top_k in
          case compose_payload tool (strip_chars is_space query) resolved_file_ids
                 resolved_top_k entity of
            Inl e \<Rightarrow> (Inl e, [])
          | Inr (endpoint, payload) \<Rightarrow>
              (let url = self_base_url tool @ endpoint in
               case prepare_headers tool env of
                 Inl e \<Rightarrow> (Inl e, [])
               | Inr headers \<Rightarrow>
                   (let request =
                          \<lparr>req_method = ''POST'', req_url = url, req_body = JsonBody payload,
                           req_headers = headers, req_timeout = self_timeout tool\<rparr>
                    in ((case client_post env request of
                           PostRaises (HTTPStatusError status body) \<Rightarrow>
                             Inr (status_failure_message status)
                         | PostRaises TimeoutException \<Rightarrow> Inr timeout_message
                         | PostRaises (HTTPError err) \<Rightarrow> Inr (network_error_message err)
                         | PostRaises ValueError \<Rightarrow> Inr unexpected_format_message
                         | PostRaises e \<Rightarrow> Inl e
                         | PostReturns data \<Rightarrow> format_results lib data),
                        [request]))))"

section \<open>A concrete configuration and environment\<close>

text \<open>
  The inputs at which the statements below are evaluated: a configuration with one default
  identifier and a default \<open>top_k\<close> of 5, a library whose formatting functions return
  fixed strings, and an environment whose clock stands at 1700000000 seconds, whose signer
  returns the token \<open>tok\<close>, whose search answers one passage and whose proxied request
  times out.
\<close>

definition example_settings :: settings where
  "example_settings =
     \<lparr>RAG_BASE_URL = ''http://rag:8000/'',
      RAG_QUERY_ENDPOINT = ''query'',
      RAG_QUERY_MULTIPLE_ENDPOINT = ''/query_multiple'',
      RAG_DEFAULT_FILE_IDS = [''kb''],
      RAG_TOP_K = 5,
      RAG_ENTITY_ID = None,
      RAG_TIMEOUT_SECONDS = 30,
      RAG_JWT_SECRET = Some ''secret'',
      RAG_JWT_ALGORITHM = ''HS256'',
      RAG_JWT_TTL_SECONDS = 60,
      RAG_SERVICE_SUBJECT = None\<rparr>"

definition example_lib :: "unit pylib" where
  "example_lib =
     \<lparr>float_truthy = (\<lambda>x. True),
      format_float3 = (\<lambda>x. ''0.500''),
      format_int3 = (\<lambda>i. Inr ''1.000''),
      str_of_value = (\<lambda>v. ''value''),
      shorten320 = (\<lambda>s. s)\<rparr>"

definition example_env :: "unit env" where
  "example_env =
     \<lparr>now = 1700000000000000,
      jwt_encode = (\<lambda>claims secret algorithm. Some ''tok''),
      uuid4_hex8 = ''1a2b3c4d'',
      client_post = (\<lambda>request.
        PostReturns (JList [JList [JDict [(''page_content'', JStr ''alpha  beta'')], JFloat ()]])),
      client_request = (\<lambda>request. Raises TimeoutException)\<rparr>"

section \<open>Properties of the identifier normalizer\<close>






























section \<open>Properties of the result formatter\<close>

lemma format_chunk_prefix:
  "format_chunk lib idx item = Inr (Some l) \<Longrightarrow> prefix (string_of_nat idx @ ''. score='') l"
  by (auto simp: format_chunk_def Let_def split: prod.splits json.splits sum.splits)

lemma format_chunks_from:
  "format_chunks lib k items = Inr lines \<Longrightarrow>
   lines = concat (map (\<lambda>i. case format_chunk lib (k + i) (items ! i) of
                              Inr (Some l) \<Rightarrow> [l] | _ \<Rightarrow> []) [0..<length items])"
proof (induction items arbitrary: k lines)
  case Nil
  then show ?case by simp
next
  case (Cons x xs)
  from Cons.prems obtain line rest where
    x: "format_chunk lib k x = Inr line" and
    r: "format_chunks lib (Suc k) xs = Inr rest" and
    l: "lines = (case line of None \<Rightarrow> [] | Some l \<Rightarrow> [l]) @ rest"
    by (auto split: sum.splits)
  have "[0..<length (x # xs)] = 0 # map Suc [0..<length xs]"
    by (simp add: upt_conv_Cons map_Suc_upt del: upt_Suc)
  then show ?case
    using Cons.IH [OF r] x l
    by (simp add: comp_def split: option.splits del: upt_Suc)
qed

text \<open>
  Claim C10. When the loop of the formatter finishes, its lines are, in order, the lines
  that the loop body gives for the entries of the raw input, the entry at position \<open>i\<close>
  (counted from 0) being rendered with the index \<open>i + 1\<close> and a skipped entry giving no
  line; every rendered line begins with the decimal index of its entry, followed by
  \<open>. score=\<close>. So a skipped entry uses up its index: there is an input whose output is
  not the fallback message and starts with the index 2.
\<close>

theorem format_chunks_index_is_position:
  assumes "format_chunks lib 1 items = Inr lines"
  shows "lines = concat (map (\<lambda>i. case format_chunk lib (Suc i) (items ! i) of
                              Inr (Some l) \<Rightarrow> [l] | _ \<Rightarrow> []) [0..<length items]) \<and>
         (\<forall>i<length items. \<forall>l. format_chunk lib (Suc i) (items ! i) = Inr (Some l) \<longrightarrow>
              prefix (string_of_nat (Suc i) @ ''. score='') l) \<and>
         (\<exists>data out. format_results example_lib data = Inr out \<and> out \<noteq> no_context_message \<and>
              prefix (string_of_nat 2 @ ''. score='') out)"
proof -
  have a: "format_results example_lib (JList [JInt 5, JDict []]) =
             Inr ''2. score=n/a source=unknown source: ''"
    by code_simp
  have b: "''2. score=n/a source=unknown source: '' \<noteq> no_context_message"
    by code_simp
  have c: "prefix (string_of_nat 2 @ ''. score='') ''2. score=n/a source=unknown source: ''"
    by code_simp
  from a b c have
    "\<exists>data out. format_results example_lib data = Inr out \<and> out \<noteq> no_context_message \<and>
       prefix (string_of_nat 2 @ ''. score='') out"
    by blast
  then show ?thesis
    using format_chunks_from [OF assms] format_chunk_prefix by auto
qed

theorem format_chunks_index_is_position_witness:
  "format_chunks example_lib 1
     [JInt 5, JDict [], JStr ''x'', JList [JDict [(''content'', JStr ''a'')]]] =
     Inr [''2. score=n/a source=unknown source: '', ''4. score=n/a source=unknown source: a''] \<and>
   format_chunk example_lib (Suc 1) (JDict []) =
     Inr (Some ''2. score=n/a source=unknown source: '')"
proof -
  have a: "format_chunks example_lib 1
             [JInt 5, JDict [], JStr ''x'', JList [JDict [(''content'', JStr ''a'')]]] =
           Inr [''2. score=n/a source=unknown source: '',
                ''4. score=n/a source=unknown source: a'']"
    by code_simp
  have b: "format_chunk example_lib (Suc 1) (JDict []) =
             Inr (Some ''2. score=n/a source=unknown source: '')"
    by code_simp
  show ?thesis
    using a b format_chunks_index_is_position [OF a] by simp
qed

text \<open>
  Claim C6, at the input where the code departs from it. The input is a list with one
  entry, a pair of a document and a score; the document is a dict whose \<open>page_content\<close>
  is the number 5. The input is not empty and its entry is not skipped, so the claim
  promises the formatted line; the formatter raises \<open>AttributeError\<close>
  (\<open>page_content.split()\<close> on an integer).
\<close>

theorem format_results_raises_on_number_content:
  "format_results lib (JList [JList [JDict [(''page_content'', JInt 5)], JFloat x]]) =
     Inl AttributeError"
  by (simp add: format_results_def truthy_def py_iter_def format_chunk_def
      item_document_score_def py_or_def dict_get_def)

text \<open>
  Where the formatter returns a string, it is the fallback message exactly when the input
  is false (absent or empty) or every entry of the input is skipped; otherwise it is the
  lines of the loop, joined by newlines. A line never begins like the fallback message.
\<close>

lemma string_of_nat_digit:
  "string_of_nat n \<noteq> [] \<and> 48 \<le> (of_char (hd (string_of_nat n)) :: nat) \<and>
   (of_char (hd (string_of_nat n)) :: nat) \<le> 57"
proof (induction n rule: string_of_nat.induct)
  case (1 n)
  show ?case
  proof (cases "n < 10")
    case True
    then show ?thesis
      by (subst (1 2 3) string_of_nat.simps) simp
  next
    case False
    with 1 show ?thesis
      by (subst (1 2 3) string_of_nat.simps) simp
  qed
qed

lemma format_chunk_line_head:
  assumes "format_chunk lib idx item = Inr (Some l)"
  shows "l \<noteq> [] \<and> hd l \<noteq> CHR ''N''"
proof -
  from format_chunk_prefix [OF assms] obtain r where
    "l = string_of_nat idx @ ''. score='' @ r"
    by (auto simp: prefix_def)
  then show ?thesis
    using string_of_nat_digit [of idx] by auto
qed

lemma format_chunks_lines:
  "format_chunks lib k items = Inr lines \<Longrightarrow> l \<in> set lines \<Longrightarrow>
   \<exists>idx item. item \<in> set items \<and> format_chunk lib idx item = Inr (Some l)"
proof (induction items arbitrary: k lines)
  case Nil
  then show ?case by simp
next
  case (Cons x xs)
  from Cons.prems(1) obtain line rest where
    x: "format_chunk lib k x = Inr line" and
    r: "format_chunks lib (Suc k) xs = Inr rest" and
    ls: "lines = (case line of None \<Rightarrow> [] | Some l \<Rightarrow> [l]) @ rest"
    by (auto split: sum.splits)
  show ?case
  proof (cases "l \<in> set rest")
    case True
    from Cons.IH [OF r True] show ?thesis by auto
  next
    case False
    with Cons.prems(2) ls have "line = Some l"
      by (auto split: option.splits)
    with x show ?thesis by auto
  qed
qed

lemma join_head: "x \<noteq> [] \<Longrightarrow> join sep (x # xs) \<noteq> [] \<and> hd (join sep (x # xs)) = hd x"
  by (cases xs) auto

lemma format_chunk_skip_index:
  "format_chunk lib idx item = Inr None \<Longrightarrow> format_chunk lib idx' item = Inr None"
  by (auto simp: format_chunk_def Let_def split: prod.splits json.splits sum.splits)

lemma format_chunks_empty_iff:
  "format_chunks lib k items = Inr [] \<longleftrightarrow>
   (\<forall>item \<in> set items. format_chunk lib 1 item = Inr None)"
proof (induction items arbitrary: k)
  case Nil
  then show ?case by simp
next
  case (Cons x xs)
  show ?case
  proof
    assume a: "format_chunks lib k (x # xs) = Inr []"
    then have "format_chunk lib k x = Inr None" and "format_chunks lib (Suc k) xs = Inr []"
      by (auto split: sum.splits option.splits)
    then show "\<forall>item \<in> set (x # xs). format_chunk lib 1 item = Inr None"
      using Cons.IH [of "Suc k"] format_chunk_skip_index by auto
  next
    assume a: "\<forall>item \<in> set (x # xs). format_chunk lib 1 item = Inr None"
    then have "format_chunk lib k x = Inr None" and "format_chunks lib (Suc k) xs = Inr []"
      using Cons.IH [of "Suc k"] format_chunk_skip_index by auto
    then show "format_chunks lib k (x # xs) = Inr []"
      by simp
  qed
qed

lemma format_results_returns:
  assumes "format_results lib data = Inr out"
  shows "(out = no_context_message \<longleftrightarrow>
            \<not> truthy lib data \<or>
            (\<exists>items. py_iter data = Inr items \<and>
               (\<forall>item \<in> set items. format_chunk lib 1 item = Inr None))) \<and>
         (out \<noteq> no_context_message \<longrightarrow>
            (\<exists>items lines. py_iter data = Inr items \<and> format_chunks lib 1 items = Inr lines \<and>
               lines \<noteq> [] \<and> out = join [CHR 0x0A] lines))"
proof (cases "truthy lib data")
  case False
  with assms show ?thesis by (simp add: format_results_def)
next
  case True
  with assms obtain items lines where
    it: "py_iter data = Inr items" and
    fc: "format_chunks lib 1 items = Inr lines" and
    out: "out = (if lines = [] then no_context_message else join [CHR 0x0A] lines)"
    by (auto simp: format_results_def split: sum.splits if_splits)
  show ?thesis
  proof (cases "lines = []")
    case True
    with fc have "format_chunks lib 1 items = Inr []" by simp
    then have "\<forall>item \<in> set items. format_chunk lib 1 item = Inr None"
      by (rule format_chunks_empty_iff [THEN iffD1])
    with True out it show ?thesis by auto
  next
    case False
    then obtain l ls where lines: "lines = l # ls" by (cases lines) auto
    then have "l \<in> set lines" by simp
    from format_chunks_lines [OF fc this] obtain idx item where
      "format_chunk lib idx item = Inr (Some l)" by blast
    from format_chunk_line_head [OF this] have "l \<noteq> []" "hd l \<noteq> CHR ''N''" by auto
    with join_head [of l "[CHR 0x0A]" ls] have "hd (join [CHR 0x0A] lines) \<noteq> CHR ''N''"
      by (simp add: lines)
    then have ne: "join [CHR 0x0A] lines \<noteq> no_context_message"
      by (auto simp: no_context_message_def)
    have "\<not> (\<forall>item \<in> set items. format_chunk lib 1 item = Inr None)"
    proof
      assume "\<forall>item \<in> set items. format_chunk lib 1 item = Inr None"
      then have "format_chunks lib 1 items = Inr []"
        by (rule format_chunks_empty_iff [THEN iffD2])
      with fc False show False by simp
    qed
    with ne out it fc False \<open>truthy lib data\<close> show ?thesis by auto
  qed
qed

section \<open>Properties of the search tool\<close>

text \<open>
  Claim C1, at the input where the code departs from it. The RAG service answers the
  query with the JSON document \<open>7\<close>; the response is parsed, and \<open>_format_results\<close>,
  which runs after the \<open>try\<close> statement, raises \<open>TypeError\<close> on \<open>enumerate(7, start=1)\<close>.
  The exception reaches the caller of \<open>_arun\<close>.
\<close>

theorem arun_raises_on_number_response:
  "arun (init_tool example_settings) example_lib
     (example_env\<lparr>client_post := (\<lambda>request. PostReturns (JInt 7))\<rparr>) ''q'' None None None =
   (Inl TypeError,
    [\<lparr>req_method = ''POST'', req_url = ''http://rag:8000/query'',
      req_body = JsonBody [(''query'', PStr ''q''), (''k'', PInt 5), (''file_id'', PStr ''kb'')],
      req_headers = [(''Content-Type'', ''application/json''), (''Authorization'', ''Bearer tok'')],
      req_timeout = 30\<rparr>])"
  by code_simp

text \<open>
  The result of \<open>_arun\<close> for a query that reaches the network, by the outcome of the
  request: each of the four handled failure kinds gives its own message, and the four
  messages differ from each other.
\<close>

lemma failure_messages_distinct:
  "status_failure_message st \<noteq> timeout_message"
  "status_failure_message st \<noteq> network_error_message err"
  "status_failure_message st \<noteq> unexpected_format_message"
  "timeout_message \<noteq> network_error_message err"
  "timeout_message \<noteq> unexpected_format_message"
  "network_error_message err \<noteq> unexpected_format_message"
  by (simp_all add: status_failure_message_def timeout_message_def network_error_message_def
      unexpected_format_message_def)

lemma compose_payload_ok:
  "ids \<noteq> [] \<Longrightarrow> \<exists>ep payload. compose_payload tool q ids k entity = Inr (ep, payload)"
  by (cases ids) (simp_all add: compose_payload_def Let_def)

lemma arun_result_of_outcome:
  assumes "\<not> (query = [] \<or> strip_chars is_space query = [])"
    and "resolve_file_ids tool file_ids \<noteq> []"
    and "prepare_headers tool env = Inr headers"
    and "\<forall>request. client_post env request = outcome"
  shows "fst (arun tool lib env query file_ids top_k entity) =
     (case outcome of
        PostRaises (HTTPStatusError status body) \<Rightarrow> Inr (status_failure_message status)
      | PostRaises TimeoutException \<Rightarrow> Inr timeout_message
      | PostRaises (HTTPError err) \<Rightarrow> Inr (network_error_message err)
      | PostRaises ValueError \<Rightarrow> Inr unexpected_format_message
      | PostRaises e \<Rightarrow> Inl e
      | PostReturns data \<Rightarrow> format_results lib data)"
proof -
  from compose_payload_ok [OF assms(2)] obtain ep payload where
    "compose_payload tool (strip_chars is_space query) (resolve_file_ids tool file_ids)
       (resolve_top_k tool top_k) entity = Inr (ep, payload)"
    by blast
  then show ?thesis
    using assms by (simp add: arun_def Let_def)
qed


text \<open>The other cases of \<open>top_k\<close>: absent, negative, positive.\<close>

lemma resolve_top_k_cases:
  "resolve_top_k (init_tool cfg) None = max 1 (RAG_TOP_K cfg)"
  "k < 0 \<Longrightarrow> resolve_top_k (init_tool cfg) (Some k) = 1"
  "0 < k \<Longrightarrow> resolve_top_k (init_tool cfg) (Some k) = k"
  by (auto simp: resolve_top_k_def init_tool_def Let_def)










section \<open>Properties of the service token issuer\<close>









section \<open>Properties of the proxy endpoints\<close>





end
